theory Spec2Isabelle
  imports Main "HOL-Library.Sublist"
begin

section \<open>Conversion of a submission document into OData rows (lib/data/json.js)\<close>

text \<open>
  The module walks a schema tree along with the tag events of a submission document and
  builds flat rows for one requested table. The development below embeds the module as
  it is written: the three helper functions \<open>getBranchState\<close>, \<open>hashId\<close> and
  \<open>navigationLink\<close>, and the three event handlers of \<open>submissionToOData\<close>, which
  mutate four stacks and a tree of output objects. The output objects are shared between
  the data stack, the arrays of their parents and the result, so they live in an explicit
  store indexed by addresses.
\<close>

subsection \<open>Strings\<close>

text \<open>\<open>Array.prototype.join\<close> on an array of strings.\<close>

fun join :: "string \<Rightarrow> string list \<Rightarrow> string" where
  "join sep [] = []"
| "join sep [x] = x"
| "join sep (x # y # ys) = x @ sep @ join sep (y # ys)"

text \<open>\<open>s.startsWith(p)\<close>.\<close>

fun startsWith :: "string \<Rightarrow> string \<Rightarrow> bool" where
  "startsWith s [] = True"
| "startsWith [] (p # ps) = False"
| "startsWith (c # cs) (p # ps) = (c = p \<and> startsWith cs ps)"

text \<open>The decimal numeral of a natural number, as a template literal prints an array length.\<close>

definition digitChar :: "nat \<Rightarrow> char" where
  "digitChar d = char_of (48 + d)"

fun showNat :: "nat \<Rightarrow> string" where
  "showNat n = (if n < 10 then [digitChar n] else showNat (n div 10) @ [digitChar (n mod 10)])"

declare showNat.simps [simp del]

subsection \<open>Schema fields\<close>

text \<open>
  A schema field is an object \<open>{ name, type, children }\<close>. The type is the string the code
  compares against (\<open>'structure'\<close>, \<open>'repeat'\<close>, \<open>'int'\<close>, \<open>'decimal'\<close>, \<open>'geopoint'\<close>, anything
  else being written verbatim); \<open>children\<close> is the lookup from tag name to field, here an
  association list read with \<open>map_of\<close>. The schema is built outside this module; following
  the data model of the specification, a field without children carries an empty lookup.
\<close>

datatype field = Field (name: string) (ftype: string) (children: "(string \<times> field) list")

subsection \<open>Iteration values\<close>

text \<open>
  The iteration stack holds the instance id (a string) at the bottom, the empty string for
  a structure, the array index for a repeat and \<open>null\<close> for an ignored element; reading an
  array out of range yields \<open>undefined\<close>.
\<close>

datatype iter = INull | IUndef | IStr string | INum nat

text \<open>A value inside a template literal: \<open>`${iteration}`\<close>.\<close>

fun iterToString :: "iter \<Rightarrow> string" where
  "iterToString INull = ''null''"
| "iterToString IUndef = ''undefined''"
| "iterToString (IStr s) = s"
| "iterToString (INum n) = showNat n"

subsection \<open>Collaborators imported from other modules\<close>

text \<open>
  \<open>shasum\<close> (util/crypto), \<open>isBlank\<close> (util/util) and \<open>stripNamespacesFromPath\<close>
  (util/xml) are required from modules outside this one, and the conversion of a number
  to a string is the runtime's; they are parameters of the development. A number that
  \<open>parseInt\<close> or \<open>parseFloat\<close> returns is represented by the numeric literal that was
  recognised (see below), and \<open>numToString\<close> prints it as \<open>Array.prototype.join\<close> does.
\<close>

datatype jsnum = NaN | Num string

record env =
  shasum :: "string \<Rightarrow> string"
  isBlank :: "iter \<Rightarrow> bool"
  stripNamespacesFromPath :: "string \<Rightarrow> string"
  numToString :: "jsnum \<Rightarrow> string"

subsection \<open>The three helpers\<close>

text \<open>
  \<open>getBranchState\<close> compares the field stack to a target table name and returns whether we
  are out of (-1), at (0), or in (1) the target branch. The stack is given here without
  null entries; the handlers below check that before they call it, since \<open>field.name\<close> on
  a null entry raises a TypeError.
\<close>

definition getBranchState :: "field list \<Rightarrow> string \<Rightarrow> int" where
  "getBranchState fieldStack table =
     (let impliedTableName = join ''.'' (map name fieldStack)
      in if impliedTableName = table then 0
         else if startsWith impliedTableName table then 1
         else -1)"

text \<open>\<open>ptr\<close> is ramda's \<open>last\<close>: the top of a stack, \<open>undefined\<close> when it is empty.\<close>

definition ptr :: "'a option list \<Rightarrow> 'a option" where
  "ptr stack = (if stack = [] then None else last stack)"

definition ptrIter :: "iter list \<Rightarrow> iter" where
  "ptrIter stack = (if stack = [] then IUndef else last stack)"

text \<open>\<open>pushPtr\<close> pushes the current stack pointer back onto the stack.\<close>

definition pushPtr :: "'a option list \<Rightarrow> 'a option list" where
  "pushPtr stack = stack @ [ptr stack]"

definition pushPtrIter :: "iter list \<Rightarrow> iter list" where
  "pushPtrIter stack = stack @ [ptrIter stack]"

text \<open>Given a stack of \<open>[ field, iteration ]\<close> pairs, \<open>hashId\<close> returns a hash id.\<close>

definition hashId :: "env \<Rightarrow> (field \<times> iter) list \<Rightarrow> string" where
  "hashId E stack =
     shasum E (join ''%%'' (map (\<lambda>(field, iteration). name field @ ''#'' @ iterToString iteration) stack))"

text \<open>
  \<open>navigationLink\<close> walks both stacks by index. \<open>iterationStack[i]\<close> past the end of the
  iteration stack is \<open>undefined\<close>; the loop state is the index, the result and the context
  stack built so far.
\<close>

definition nthIter :: "iter list \<Rightarrow> nat \<Rightarrow> iter" where
  "nthIter stack i = (if i < length stack then stack ! i else IUndef)"

function navigationLinkLoop ::
  "env \<Rightarrow> field list \<Rightarrow> iter list \<Rightarrow> nat \<Rightarrow> string list \<Rightarrow> (field \<times> iter) list \<Rightarrow> string list" where
  "navigationLinkLoop E fieldStack iterationStack i result contextStack =
     (if i < length fieldStack then
        (let contextStack' = contextStack @ [(fieldStack ! i, nthIter iterationStack i)];
             result' =
               (if \<not> isBlank E (nthIter iterationStack i) then
                  result @ [name (fieldStack ! i) @ ''('' @ [CHR 0x27] @
                    (if length contextStack' = 1 then iterToString (nthIter iterationStack i)
                     else hashId E contextStack') @ [CHR 0x27] @ '')'']
                else result @ [name (fieldStack ! i)])
         in navigationLinkLoop E fieldStack iterationStack (i + 1) result' contextStack')
      else result)"
  by pat_completeness auto
termination
  by (relation "measure (\<lambda>(E, fieldStack, iterationStack, i, result, contextStack). length fieldStack - i)") auto

declare navigationLinkLoop.simps [simp del]

definition navigationLink :: "env \<Rightarrow> field list \<Rightarrow> iter list \<Rightarrow> string" where
  "navigationLink E fieldStack iterationStack =
     join ''/'' (navigationLinkLoop E fieldStack iterationStack 0 [] [])"

subsection \<open>Value coercion: \<open>parseInt\<close>, \<open>parseFloat\<close> and the splitting of a geopoint\<close>

text \<open>
  \<open>parseInt\<close> and \<open>parseFloat\<close> skip leading white space and read the longest prefix that
  is a numeral; they return \<open>NaN\<close> when there is none. The number they return is kept as
  the literal that was read (\<open>Num\<close>): the rounding of that literal to a double is the
  runtime's and is not needed to decide whether a value is \<open>NaN\<close>. White space is the
  ASCII white space.
\<close>

definition isSpace :: "char \<Rightarrow> bool" where
  "isSpace c = (c \<in> set [CHR 0x20, CHR 0x09, CHR 0x0A, CHR 0x0B, CHR 0x0C, CHR 0x0D])"

definition isDigit :: "char \<Rightarrow> bool" where
  "isDigit c = (c \<in> set ''0123456789'')"

definition isHexDigit :: "char \<Rightarrow> bool" where
  "isHexDigit c = (c \<in> set ''0123456789abcdefABCDEF'')"

definition parseInt :: "string \<Rightarrow> jsnum" where
  "parseInt text =
     (let s = dropWhile isSpace text;
          sign = (if take 1 s = ''-'' then ''-'' else []);
          s1 = (if take 1 s = ''-'' \<or> take 1 s = ''+'' then drop 1 s else s);
          hex = (take 2 s1 = ''0x'' \<or> take 2 s1 = ''0X'');
          s2 = (if hex then drop 2 s1 else s1);
          z = takeWhile (if hex then isHexDigit else isDigit) s2
      in if z = [] then NaN else Num (sign @ (if hex then ''0x'' else []) @ z))"

text \<open>The exponent part of a decimal literal, when one follows: \<open>e\<close> or \<open>E\<close>, a sign, digits.\<close>

definition exponentPart :: "string \<Rightarrow> string" where
  "exponentPart s =
     (if take 1 s = ''e'' \<or> take 1 s = ''E'' then
        (let s1 = drop 1 s;
             sgn = (if take 1 s1 = ''+'' \<or> take 1 s1 = ''-'' then take 1 s1 else []);
             ds = takeWhile isDigit (drop (length sgn) s1)
         in if ds = [] then [] else take 1 s @ sgn @ ds)
      else [])"

definition parseFloat :: "string \<Rightarrow> jsnum" where
  "parseFloat text =
     (let s = dropWhile isSpace text;
          sign = (if take 1 s = ''+'' \<or> take 1 s = ''-'' then take 1 s else []);
          s1 = drop (length sign) s
      in if startsWith s1 ''Infinity'' then Num (sign @ ''Infinity'')
         else
           (let ip = takeWhile isDigit s1;
                r1 = drop (length ip) s1;
                fp = (if take 1 r1 = ''.'' then takeWhile isDigit (drop 1 r1) else []);
                mant = (if take 1 r1 = ''.'' \<and> (ip \<noteq> [] \<or> fp \<noteq> []) then ip @ ''.'' @ fp else ip)
            in if mant = [] then NaN
               else Num (sign @ mant @ exponentPart (drop (length mant) s1))))"

text \<open>
  \<open>text.split(/\s+/g)\<close>: the pieces between the maximal runs of white space; a run at
  the start or at the end leaves an empty piece there, and the empty text gives one empty
  piece.
\<close>

function splitLoop :: "string \<Rightarrow> string \<Rightarrow> string list" where
  "splitLoop piece [] = [piece]"
| "splitLoop piece (c # cs) =
     (if isSpace c then piece # splitLoop [] (dropWhile isSpace cs)
      else splitLoop (piece @ [c]) cs)"
  by pat_completeness auto
termination
  by (relation "measure (\<lambda>(piece, s). length s)")
     (auto simp: length_dropWhile_le less_Suc_eq_le)

definition split :: "string \<Rightarrow> string list" where
  "split text = splitLoop [] text"

text \<open>An array element by index: \<open>undefined\<close> (here \<open>None\<close>) past the end.\<close>

definition nthOpt :: "'a list \<Rightarrow> nat \<Rightarrow> 'a option" where
  "nthOpt xs i = (if i < length xs then Some (xs ! i) else None)"

subsection \<open>Output values and the store\<close>

text \<open>
  What the handlers write under a key of an output object: a string (text, a navigation
  link, an id), a number, the object \<open>{ type: 'Point', coordinates }\<close>, or the array of
  the rows of a repeat. The rows are objects of the store and an array holds their
  addresses.
\<close>

type_synonym addr = nat

datatype val = VStr string | VNum jsnum | VPoint "jsnum list" | VArr "addr list"

type_synonym obj = "string \<rightharpoonup> val"

record options =
  wkt :: "bool option"

datatype event = Open string | Text string | Close

text \<open>
  A submission is \<open>{ instanceId, xml }\<close>. The document is represented by the events that
  the tag parser (htmlparser2, \<open>xmlMode\<close>) delivers for it.
\<close>

record submission =
  instanceId :: string
  xml :: "event list"

datatype error = TypeError

text \<open>
  The state of one conversion: the four stacks, the result (the addresses of the rows
  pushed so far), the flag of the dropped wrapper tag, the store with its next unused
  address, and the value passed to \<open>resolve\<close> once it has been called.
\<close>

record state =
  fieldStack :: "field option list"
  dataStack :: "addr option list"
  iterationStack :: "iter list"
  nsStack :: "string option list"
  result :: "addr list"
  droppedWrapper :: bool
  heap :: "addr \<Rightarrow> obj"
  fresh :: addr
  resolved :: "addr list option"

text \<open>\<open>dataPtr[key] = v\<close> on the object at address \<open>a\<close>.\<close>

definition setKey :: "addr \<Rightarrow> string \<Rightarrow> val \<Rightarrow> (addr \<Rightarrow> obj) \<Rightarrow> (addr \<Rightarrow> obj)" where
  "setKey a key v h = h(a := (h a)(key \<mapsto> v))"

text \<open>
  The state before the first event (lines 44 to 63). The argument \<open>fields\<close> of the source
  is called \<open>schema\<close> here; the root field has no \<open>type\<close>, which is the empty string
  below, and the root object is at address 0.
\<close>

definition initial :: "(string \<times> field) list \<Rightarrow> string \<Rightarrow> submission \<Rightarrow> state" where
  "initial schema table sub =
     \<lparr> fieldStack = [Some (Field ''Submissions'' [] schema)],
       dataStack = [Some 0],
       iterationStack = [IStr (instanceId sub)],
       nsStack = [None],
       result = (if table = ''Submissions'' then [0] else []),
       droppedWrapper = False,
       heap = (\<lambda>a. Map.empty)(0 := [''__id'' \<mapsto> VStr (instanceId sub)]),
       fresh = 1,
       resolved = None \<rparr>"

subsection \<open>The handlers\<close>

text \<open>
  The parent walk of lines 131 and 132: drop one entry of the context stack, then continue
  dropping until the top is a repeat or the stack is empty.
\<close>

function popToRepeat :: "(field \<times> iter) list \<Rightarrow> (field \<times> iter) list" where
  "popToRepeat contextStack =
     (if contextStack \<noteq> [] \<and> ftype (fst (last contextStack)) \<noteq> ''repeat''
      then popToRepeat (butlast contextStack) else contextStack)"
  by pat_completeness auto
termination
  by (relation "measure length") auto

declare popToRepeat.simps [simp del]

definition parentContext :: "(field \<times> iter) list \<Rightarrow> (field \<times> iter) list" where
  "parentContext contextStack = popToRepeat (butlast contextStack)"

text \<open>The key and the value of the parent id reference (lines 135 to 138).\<close>

definition parentRef :: "env \<Rightarrow> submission \<Rightarrow> (field \<times> iter) list \<Rightarrow> string \<times> val" where
  "parentRef E sub contextStack =
     (if contextStack = [] then (''__Submissions-id'', VStr (instanceId sub))
      else (''__'' @ join ''-'' (map (\<lambda>ctx. name (fst ctx)) contextStack) @ ''-id'',
            VStr (hashId E contextStack)))"

text \<open>An element without a schema definition, or a repeat below the target table: four nulls.\<close>

definition pushNull :: "state \<Rightarrow> state" where
  "pushNull s =
     s\<lparr> fieldStack := fieldStack s @ [None],
        dataStack := dataStack s @ [None],
        iterationStack := iterationStack s @ [INull],
        nsStack := nsStack s @ [None] \<rparr>"

text \<open>
  The repeat branch of \<open>onopentag\<close> (lines 95 to 147). \<open>field\<close> has been pushed onto the
  field stack already, so \<open>navigationLink\<close> sees a field stack that is one longer than the
  iteration stack. Writing to a null \<open>dataPtr\<close>, reading \<open>name\<close> of a null entry and calling
  \<open>push\<close> on a value that is not an array raise a TypeError.
\<close>

definition openRepeat ::
  "env \<Rightarrow> string \<Rightarrow> submission \<Rightarrow> string \<Rightarrow> field \<Rightarrow> state \<Rightarrow> error + state" where
  "openRepeat E table sub nm field s =
     (case ptr (dataStack s) of
        None \<Rightarrow> Inl TypeError
      | Some dataPtr \<Rightarrow>
        (case those (fieldStack s @ [Some field]) of
           None \<Rightarrow> Inl TypeError
         | Some fstack \<Rightarrow>
           (let nsPtr = ptr (nsStack s);
                target = (case nsPtr of None \<Rightarrow> nm | Some ns \<Rightarrow> ns @ ''__'' @ nm);
                h1 = setKey dataPtr (target @ ''@odata.navigationLink'')
                       (VStr (navigationLink E fstack (iterationStack s))) (heap s);
                branchState = getBranchState fstack table
            in if branchState < 1 then
                 (case (case h1 dataPtr nm of None \<Rightarrow> Some [] | Some (VArr rows) \<Rightarrow> Some rows
                        | Some _ \<Rightarrow> None) of
                    None \<Rightarrow> Inl TypeError
                  | Some rows \<Rightarrow>
                    (let iterationStack' = iterationStack s @ [INum (length rows)];
                         contextStack = zip fstack iterationStack';
                         bag = fresh s;
                         h2 = (setKey dataPtr nm (VArr (rows @ [bag])) h1)
                                (bag := [''__id'' \<mapsto> VStr (hashId E contextStack)]);
                         s' = s\<lparr> fieldStack := fieldStack s @ [Some field],
                                 dataStack := dataStack s @ [Some bag],
                                 iterationStack := iterationStack',
                                 nsStack := nsStack s @ [None],
                                 heap := h2,
                                 fresh := Suc bag \<rparr>
                     in if branchState = 0 then
                          (let (key, v) = parentRef E sub (parentContext contextStack)
                           in Inr (s'\<lparr> result := result s @ [bag],
                                       heap := setKey bag key v h2 \<rparr>))
                        else Inr s'))
               else Inr (pushNull (s\<lparr> heap := h1 \<rparr>)))))"

definition onopentag ::
  "env \<Rightarrow> string \<Rightarrow> submission \<Rightarrow> string \<Rightarrow> state \<Rightarrow> error + state" where
  "onopentag E table sub fullname s =
     (if \<not> droppedWrapper s then Inr (s\<lparr> droppedWrapper := True \<rparr>)
      else
        (let nm = stripNamespacesFromPath E fullname;
             fieldPtr = ptr (fieldStack s)
         in case (case fieldPtr of None \<Rightarrow> None | Some fp \<Rightarrow> map_of (children fp) nm) of
              None \<Rightarrow> Inr (pushNull s)
            | Some field \<Rightarrow>
                if ftype field = ''structure'' then
                  Inr (s\<lparr> fieldStack := fieldStack s @ [Some field],
                          dataStack := pushPtr (dataStack s),
                          iterationStack := iterationStack s @ [IStr []],
                          nsStack := nsStack s @
                            [Some (case ptr (nsStack s) of None \<Rightarrow> name field
                                   | Some nsPtr \<Rightarrow> nsPtr @ ''__'' @ name field)] \<rparr>)
                else if ftype field = ''repeat'' then openRepeat E table sub nm field s
                else
                  Inr (s\<lparr> fieldStack := fieldStack s @ [Some field],
                          dataStack := pushPtr (dataStack s),
                          iterationStack := pushPtrIter (iterationStack s),
                          nsStack := pushPtr (nsStack s) \<rparr>)))"

text \<open>
  The geopoint branch of \<open>ontext\<close> (lines 180 to 189): the value to write, or \<open>None\<close> where
  the handler returns without writing.
\<close>

definition geopoint :: "env \<Rightarrow> options \<Rightarrow> string \<Rightarrow> val option" where
  "geopoint E opts text =
     (let parts = map parseFloat (split text);
          lat = nthOpt parts 0; lon = nthOpt parts 1; altitude = nthOpt parts 2
      in case (lat, lon) of
           (Some la, Some lo) \<Rightarrow>
             if la = NaN \<or> lo = NaN then None
             else
               (let coordinates =
                      [lo, la] @ (case altitude of None \<Rightarrow> []
                                  | Some al \<Rightarrow> if al \<noteq> NaN then [al] else [])
                in if wkt opts = Some True
                   then Some (VStr (''POINT ('' @ join '' '' (map (numToString E) coordinates) @ '')''))
                   else Some (VPoint coordinates))
         | _ \<Rightarrow> None)"

text \<open>The value that \<open>ontext\<close> writes for a field of a given type, if it writes one.\<close>

definition coerce :: "env \<Rightarrow> options \<Rightarrow> string \<Rightarrow> string \<Rightarrow> val option" where
  "coerce E opts ty text =
     (if ty = ''structure'' \<or> ty = ''repeat'' then None
      else if ty = ''int'' then Some (VNum (parseInt text))
      else if ty = ''decimal'' then Some (VNum (parseFloat text))
      else if ty = ''geopoint'' then geopoint E opts text
      else Some (VStr text))"

definition ontext ::
  "env \<Rightarrow> string \<Rightarrow> options \<Rightarrow> string \<Rightarrow> state \<Rightarrow> error + state" where
  "ontext E table opts text s =
     (case ptr (fieldStack s) of
        None \<Rightarrow> Inr s
      | Some fieldPtr \<Rightarrow>
        (case those (fieldStack s) of
           None \<Rightarrow> Inl TypeError
         | Some fstack \<Rightarrow>
           if getBranchState fstack table = 1 then
             (let dataPtr = ptr (dataStack s);
                  nsPtr = ptr (nsStack s);
                  target = (case nsPtr of None \<Rightarrow> name fieldPtr
                            | Some ns \<Rightarrow> ns @ ''__'' @ name fieldPtr)
              in case coerce E opts (ftype fieldPtr) text of
                   None \<Rightarrow> Inr s
                 | Some v \<Rightarrow>
                   (case dataPtr of
                      None \<Rightarrow> Inl TypeError
                    | Some a \<Rightarrow> Inr (s\<lparr> heap := setKey a target v (heap s) \<rparr>)))
           else Inr s))"

text \<open>
  \<open>onclosetag\<close> pops the four stacks (\<open>pop\<close> leaves an empty array empty). When the field
  stack is left empty it resets the parser, which delivers no further event, and resolves
  the promise with the result.
\<close>

definition onclosetag :: "state \<Rightarrow> state" where
  "onclosetag s =
     (let s' = s\<lparr> fieldStack := butlast (fieldStack s),
                  dataStack := butlast (dataStack s),
                  iterationStack := butlast (iterationStack s),
                  nsStack := butlast (nsStack s) \<rparr>
      in if fieldStack s' = [] then s'\<lparr> resolved := Some (result s') \<rparr> else s')"

definition handle ::
  "env \<Rightarrow> string \<Rightarrow> submission \<Rightarrow> options \<Rightarrow> event \<Rightarrow> state \<Rightarrow> error + state" where
  "handle E table sub opts ev s =
     (case ev of
        Open fullname \<Rightarrow> onopentag E table sub fullname s
      | Text text \<Rightarrow> ontext E table opts text s
      | Close \<Rightarrow> Inr (onclosetag s))"

text \<open>
  \<open>parser.write\<close>: the events in document order, until the promise is resolved or a handler
  throws.
\<close>

fun parserWrite :: "env \<Rightarrow> string \<Rightarrow> submission \<Rightarrow> options \<Rightarrow> event list \<Rightarrow> state \<Rightarrow> error + state" where
  "parserWrite E table sub opts [] s = Inr s"
| "parserWrite E table sub opts (ev # evs) s =
     (if resolved s \<noteq> None then Inr s
      else case handle E table sub opts ev s of
             Inl err \<Rightarrow> Inl err
           | Inr s' \<Rightarrow> parserWrite E table sub opts evs s')"

text \<open>
  The promise that \<open>submissionToOData\<close> returns: resolved with the rows of the result, as
  the store holds them when the parser is done; rejected when a handler has thrown inside
  the executor; or left pending, when the document ends before the field stack is empty.
\<close>

datatype outcome = Resolved "obj list" | Rejected error | Pending

definition submissionToOData ::
  "env \<Rightarrow> (string \<times> field) list \<Rightarrow> string \<Rightarrow> submission \<Rightarrow> options \<Rightarrow> outcome" where
  "submissionToOData E schema table sub opts =
     (case parserWrite E table sub opts (xml sub) (initial schema table sub) of
        Inl err \<Rightarrow> Rejected err
      | Inr s \<Rightarrow>
          (case resolved s of
             None \<Rightarrow> Pending
           | Some rows \<Rightarrow> Resolved (map (heap s) rows)))"

section \<open>Statements of the specification, for comparison\<close>

subsection \<open>The navigation link, step by step\<close>

text \<open>
  The specification describes the navigation link step by step: a step without a live
  iteration value contributes its bare field name, the first step contributes
  \<open>name('<key>')\<close> with the literal iteration value, and a deeper step contributes
  \<open>name('<key>')\<close> with the hash id of the ancestry truncated to that step.
  \<open>ancestryOf\<close> pairs every field of a field stack with the iteration value the loop reads
  for it.
\<close>

definition ancestryOf :: "field list \<Rightarrow> iter list \<Rightarrow> (field \<times> iter) list" where
  "ancestryOf fs its = zip fs (map (nthIter its) [0..<length fs])"

definition linkStep :: "env \<Rightarrow> (field \<times> iter) list \<Rightarrow> nat \<Rightarrow> string" where
  "linkStep E ancestry i =
     (if isBlank E (snd (ancestry ! i)) then name (fst (ancestry ! i))
      else name (fst (ancestry ! i)) @ ''('' @ [CHR 0x27] @
             (if i = 0 then iterToString (snd (ancestry ! i)) else hashId E (take (Suc i) ancestry))
             @ [CHR 0x27] @ '')'')"

definition navigationLinkSpec :: "env \<Rightarrow> (field \<times> iter) list \<Rightarrow> string" where
  "navigationLinkSpec E ancestry = join ''/'' (map (linkStep E ancestry) [0..<length ancestry])"

subsection \<open>Stack depth\<close>

text \<open>
  The four stacks have one depth; an event pushes one entry on each, pops one entry from
  each, or leaves them as they are.
\<close>

definition synced :: "state \<Rightarrow> bool" where
  "synced s = (length (dataStack s) = length (fieldStack s) \<and>
               length (iterationStack s) = length (fieldStack s) \<and>
               length (nsStack s) = length (fieldStack s))"

definition pushedOne :: "state \<Rightarrow> state \<Rightarrow> bool" where
  "pushedOne s s' = (length (fieldStack s') = Suc (length (fieldStack s)) \<and>
                     length (dataStack s') = Suc (length (dataStack s)) \<and>
                     length (iterationStack s') = Suc (length (iterationStack s)) \<and>
                     length (nsStack s') = Suc (length (nsStack s)))"

definition poppedOne :: "state \<Rightarrow> state \<Rightarrow> bool" where
  "poppedOne s s' = (length (fieldStack s') = length (fieldStack s) - 1 \<and>
                     length (dataStack s') = length (dataStack s) - 1 \<and>
                     length (iterationStack s') = length (iterationStack s) - 1 \<and>
                     length (nsStack s') = length (nsStack s) - 1)"

definition sameStacks :: "state \<Rightarrow> state \<Rightarrow> bool" where
  "sameStacks s s' = (fieldStack s' = fieldStack s \<and> dataStack s' = dataStack s \<and>
                      iterationStack s' = iterationStack s \<and> nsStack s' = nsStack s)"

subsection \<open>Text events\<close>

text \<open>
  The key under which the text of a field is written: the field name, prefixed by the
  namespace of the enclosing structures when there is one (line 170).
\<close>

definition targetKey :: "state \<Rightarrow> string \<Rightarrow> string" where
  "targetKey s nm = (case ptr (nsStack s) of None \<Rightarrow> nm | Some ns \<Rightarrow> ns @ ''__'' @ nm)"

text \<open>
  The situation in which \<open>ontext\<close> has a value and a place to put it: the field pointer is
  the field \<open>f\<close>, the data pointer is the object at \<open>a\<close>, and the branch state is 1.
\<close>

definition inside :: "string \<Rightarrow> state \<Rightarrow> field \<Rightarrow> addr \<Rightarrow> bool" where
  "inside table s f a =
     (ptr (fieldStack s) = Some f \<and> ptr (dataStack s) = Some a \<and>
      (case those (fieldStack s) of None \<Rightarrow> False | Some fs \<Rightarrow> getBranchState fs table = 1))"

text \<open>The values that the rows of a resolved conversion hold under a key.\<close>

definition column :: "outcome \<Rightarrow> string \<Rightarrow> val option list option" where
  "column oc key = (case oc of Resolved rows \<Rightarrow> Some (map (\<lambda>row. row key) rows) | _ \<Rightarrow> None)"




subsection \<open>Rows of a repeat\<close>



text \<open>
  The rows already under the key of a repeat: none when the key is absent, the array when
  there is one; any other value has no \<open>push\<close>.
\<close>

definition rowsAt :: "val option \<Rightarrow> addr list option" where
  "rowsAt v = (case v of None \<Rightarrow> Some [] | Some (VArr rows) \<Rightarrow> Some rows | Some _ \<Rightarrow> None)"

text \<open>
  The context stack of a new row (line 117), and the state in which the repeat branch
  leaves the conversion when the branch state is below 1, before the parent reference is
  attached.
\<close>

definition rowContext :: "field list \<Rightarrow> state \<Rightarrow> addr list \<Rightarrow> (field \<times> iter) list" where
  "rowContext fstack s rows = zip fstack (iterationStack s @ [INum (length rows)])"

definition expanded :: "env \<Rightarrow> string \<Rightarrow> field \<Rightarrow> addr \<Rightarrow> field list \<Rightarrow> addr list \<Rightarrow> state \<Rightarrow> state" where
  "expanded E nm field dataPtr fstack rows s =
     s\<lparr> fieldStack := fieldStack s @ [Some field],
        dataStack := dataStack s @ [Some (fresh s)],
        iterationStack := iterationStack s @ [INum (length rows)],
        nsStack := nsStack s @ [None],
        heap := (setKey dataPtr nm (VArr (rows @ [fresh s]))
                  (setKey dataPtr (targetKey s nm @ ''@odata.navigationLink'')
                     (VStr (navigationLink E fstack (iterationStack s))) (heap s)))
                (fresh s := [''__id'' \<mapsto> VStr (hashId E (rowContext fstack s rows))]),
        fresh := Suc (fresh s) \<rparr>"

subsection \<open>Documents and the root\<close>

text \<open>
  A document whose wrapper element is never closed: \<open>unclosed w d evs\<close> holds when the
  events \<open>evs\<close>, met at depth \<open>d\<close> with the wrapper tag dropped or not (\<open>w\<close>), never bring the
  depth down to zero.
\<close>

fun unclosed :: "bool \<Rightarrow> nat \<Rightarrow> event list \<Rightarrow> bool" where
  "unclosed w d [] = True"
| "unclosed w d (Open fullname # evs) = unclosed True (if w then Suc d else d) evs"
| "unclosed w d (Text t # evs) = unclosed w d evs"
| "unclosed w d (Close # evs) = (1 < d \<and> unclosed w (d - 1) evs)"


section \<open>Sample inputs\<close>

text \<open>
  A sample environment (a digest that wraps its input, so that it is injective; blank
  meaning null, undefined or the empty string; tag names without namespaces; numbers
  printed as they were read), a sample schema and sample documents, on which the
  theorems below are instantiated.
\<close>

definition sampleEnv :: env where
  "sampleEnv =
     \<lparr> shasum = (\<lambda>s. ''sha<'' @ s @ ''>''),
       isBlank = (\<lambda>i. i = INull \<or> i = IUndef \<or> i = IStr []),
       stripNamespacesFromPath = (\<lambda>s. s),
       numToString = (\<lambda>n. case n of NaN \<Rightarrow> ''NaN'' | Num l \<Rightarrow> l) \<rparr>"

definition sampleSchema :: "(string \<times> field) list" where
  "sampleSchema =
     [(''a'', Field ''a'' ''repeat''
                [(''b'', Field ''b'' ''repeat'' [(''x'', Field ''x'' ''int'' [])]),
                 (''n'', Field ''n'' ''string'' [])]),
      (''age'', Field ''age'' ''int'' []),
      (''name'', Field ''name'' ''string'' []),
      (''loc'', Field ''loc'' ''geopoint'' []),
      (''g'', Field ''g'' ''structure'' [(''d'', Field ''d'' ''decimal'' [])])]"

definition sampleRoot :: field where
  "sampleRoot = Field ''Submissions'' [] sampleSchema"

definition noOptions :: options where
  "noOptions = \<lparr> wkt = None \<rparr>"

text \<open>Two instances of the repeat \<open>a\<close>, each with one instance of the repeat \<open>b\<close>.\<close>

definition nestedDoc :: submission where
  "nestedDoc =
     \<lparr> instanceId = ''uuid'',
       xml = [Open ''data'',
                Open ''a'', Open ''b'', Open ''x'', Text ''12'', Close, Close, Close,
                Open ''a'', Open ''b'', Close, Close,
              Close] \<rparr>"

text \<open>An \<open>int\<close> field whose text is not a numeral, next to a text field.\<close>

definition intDoc :: submission where
  "intDoc = \<lparr> instanceId = ''uuid'',
       xml = [Open ''data'', Open ''age'', Text ''abc'', Close, Open ''name'', Text ''Ann'', Close, Close] \<rparr>"


text \<open>
  The fields \<open>a\<close> and \<open>b\<close> of the sample schema, and the state of the conversion of the
  nested document for the table \<open>Submissions.a.b\<close> when the second \<open>a\<close> has been opened.
\<close>

definition fieldB :: field where
  "fieldB = Field ''b'' ''repeat'' [(''x'', Field ''x'' ''int'' [])]"

definition fieldA :: field where
  "fieldA = Field ''a'' ''repeat'' [(''b'', fieldB), (''n'', Field ''n'' ''string'' [])]"

definition secondA :: state where
  "secondA = projr (parserWrite sampleEnv ''Submissions.a.b'' nestedDoc noOptions (take 9 (xml nestedDoc))
                      (initial sampleSchema ''Submissions.a.b'' nestedDoc))"

text \<open>A document that ends inside the first \<open>a\<close>: neither \<open>a\<close> nor the wrapper is closed.\<close>

definition openDoc :: submission where
  "openDoc = \<lparr> instanceId = ''uuid'', xml = [Open ''data'', Open ''a'', Open ''n'', Text ''x'', Close] \<rparr>"

section \<open>Properties\<close>

subsection \<open>The branch locator\<close>

lemma startsWith_prefix: "startsWith s p = prefix p s"
  by (induction s p rule: startsWith.induct) auto

lemma getBranchState_at: "getBranchState fs table = 0 \<longleftrightarrow> join ''.'' (map name fs) = table"
  by (simp add: getBranchState_def Let_def)

lemma getBranchState_in:
  "getBranchState fs table = 1 \<longleftrightarrow>
     join ''.'' (map name fs) \<noteq> table \<and> prefix table (join ''.'' (map name fs))"
  by (simp add: getBranchState_def Let_def startsWith_prefix)

text \<open>
  Claim C1. The branch locator is claimed to answer At when the path equals the table,
  Inside when the path is the table followed by a separator and more, and Outside in
  every other case, also when the path only shares a string prefix with the table. The
  code tests \<open>startsWith(table)\<close> without a separator: for the sibling field \<open>ab\<close> of the
  repeat \<open>a\<close> and the table \<open>Submissions.a\<close> it answers 1 (in the branch), although the
  path neither equals the table nor continues it after a separator.
\<close>

theorem getBranchState_shared_prefix:
  "getBranchState
     [Field ''Submissions'' [] [(''a'', Field ''a'' ''repeat'' []), (''ab'', Field ''ab'' ''string'' [])],
      Field ''ab'' ''string'' []] ''Submissions.a'' = 1
   \<and> join ''.'' [''Submissions'', ''ab''] \<noteq> ''Submissions.a''
   \<and> \<not> startsWith (join ''.'' [''Submissions'', ''ab'']) (''Submissions.a'' @ ''.'')"
  by (simp add: getBranchState_def)

subsection \<open>The navigation link\<close>

lemma length_ancestryOf: "length (ancestryOf fs its) = length fs"
  by (simp add: ancestryOf_def)

lemma nth_ancestryOf: "i < length fs \<Longrightarrow> ancestryOf fs its ! i = (fs ! i, nthIter its i)"
  by (simp add: ancestryOf_def)

text \<open>The loop invariant: the context stack is the ancestry up to the index.\<close>

lemma navigationLinkLoop_steps:
  "i \<le> length fs \<Longrightarrow> ctx = take i (ancestryOf fs its) \<Longrightarrow>
   navigationLinkLoop E fs its i res ctx = res @ map (linkStep E (ancestryOf fs its)) [i..<length fs]"
proof (induction "length fs - i" arbitrary: i res ctx)
  case 0
  then show ?case by (simp add: navigationLinkLoop.simps)
next
  case (Suc k)
  then have lt: "i < length fs" by simp
  let ?anc = "ancestryOf fs its"
  let ?ctx = "ctx @ [(fs ! i, nthIter its i)]"
  have ctx': "?ctx = take (Suc i) ?anc"
    using lt Suc.prems(2) by (simp add: take_Suc_conv_app_nth length_ancestryOf nth_ancestryOf)
  have "length (take (Suc i) ?anc) = Suc i"
    using lt by (auto simp: length_ancestryOf min_def)
  then have one: "(length (take (Suc i) ?anc) = 1) = (i = 0)"
    by simp
  have nth: "?anc ! i = (fs ! i, nthIter its i)"
    using lt by (rule nth_ancestryOf)
  have step: "(if \<not> isBlank E (nthIter its i) then
                 res @ [name (fs ! i) @ ''('' @ [CHR 0x27] @
                   (if length ?ctx = 1 then iterToString (nthIter its i) else hashId E ?ctx)
                   @ [CHR 0x27] @ '')'']
               else res @ [name (fs ! i)]) = res @ [linkStep E ?anc i]"
    unfolding ctx' one linkStep_def nth by simp
  have "navigationLinkLoop E fs its i res ctx =
          navigationLinkLoop E fs its (i + 1) (res @ [linkStep E ?anc i]) ?ctx"
    using lt step by (subst navigationLinkLoop.simps) (simp add: Let_def)
  also have "\<dots> = (res @ [linkStep E ?anc i]) @ map (linkStep E ?anc) [i + 1..<length fs]"
    using Suc.hyps(2) lt ctx' by (intro Suc.hyps(1)) auto
  also have "\<dots> = res @ map (linkStep E ?anc) [i..<length fs]"
    using lt by (simp add: upt_conv_Cons)
  finally show ?case .
qed

lemma navigationLink_ancestryOf:
  "navigationLink E fs its = navigationLinkSpec E (ancestryOf fs its)"
  by (simp add: navigationLink_def navigationLinkSpec_def navigationLinkLoop_steps length_ancestryOf)

lemma ancestryOf_unzip: "ancestryOf (map fst ancestry) (map snd ancestry) = ancestry"
  by (rule nth_equalityI) (simp_all add: ancestryOf_def nthIter_def)

text \<open>
  Claim C6. For every ancestry of (field, iteration value) pairs from the document root,
  the navigation link builder returns the path joined with \<open>/\<close> whose steps are: the bare
  field name where the iteration value is blank; \<open>name('<key>')\<close> with the literal
  iteration value at the first step; and \<open>name('<key>')\<close> with the hash id of the ancestry
  truncated to that step at every deeper step.
\<close>

theorem navigationLink_refines_spec:
  "navigationLink E (map fst ancestry) (map snd ancestry) = navigationLinkSpec E ancestry"
  by (simp add: navigationLink_ancestryOf ancestryOf_unzip)

subsection \<open>The four stacks stay synchronized\<close>

lemma pushNull_pushedOne: "pushedOne s (pushNull s)"
  by (simp add: pushedOne_def pushNull_def)

lemma openRepeat_pushedOne:
  "openRepeat E table sub nm field s = Inr s' \<Longrightarrow> pushedOne s s'"
  by (auto simp: openRepeat_def Let_def pushedOne_def pushNull_def
           split: option.splits val.splits if_splits prod.splits)

lemma onopentag_pushedOne:
  "droppedWrapper s \<Longrightarrow> onopentag E table sub fullname s = Inr s' \<Longrightarrow> pushedOne s s'"
  by (auto simp: onopentag_def Let_def pushNull_pushedOne openRepeat_pushedOne
           split: option.splits if_splits)
     (auto simp: pushedOne_def pushPtr_def pushPtrIter_def)

lemma onopentag_wrapper:
  "\<not> droppedWrapper s \<Longrightarrow> onopentag E table sub fullname s = Inr (s\<lparr> droppedWrapper := True \<rparr>)"
  by (simp add: onopentag_def)

lemma ontext_sameStacks: "ontext E table opts t s = Inr s' \<Longrightarrow> sameStacks s s'"
  by (auto simp: ontext_def Let_def sameStacks_def split: option.splits if_splits)

lemma onclosetag_stacks:
  "fieldStack (onclosetag s) = butlast (fieldStack s)"
  "dataStack (onclosetag s) = butlast (dataStack s)"
  "iterationStack (onclosetag s) = butlast (iterationStack s)"
  "nsStack (onclosetag s) = butlast (nsStack s)"
  by (auto simp: onclosetag_def Let_def)

lemma onclosetag_poppedOne: "poppedOne s (onclosetag s)"
  by (simp add: poppedOne_def onclosetag_stacks)

lemma handle_synced:
  assumes "synced s" and "handle E table sub opts ev s = Inr s'"
  shows "synced s'"
proof (cases ev)
  case (Open fullname)
  show ?thesis
  proof (cases "droppedWrapper s")
    case True
    with assms Open have "pushedOne s s'"
      by (auto simp: handle_def intro: onopentag_pushedOne)
    with assms(1) show ?thesis by (simp add: synced_def pushedOne_def)
  next
    case False
    with assms Open show ?thesis by (auto simp: handle_def onopentag_wrapper synced_def)
  qed
next
  case (Text t)
  with assms have "sameStacks s s'" by (auto simp: handle_def intro: ontext_sameStacks)
  with assms(1) show ?thesis by (simp add: synced_def sameStacks_def)
next
  case Close
  with assms have "poppedOne s s'" by (auto simp: handle_def onclosetag_poppedOne)
  with assms(1) show ?thesis by (simp add: synced_def poppedOne_def)
qed

lemma parserWrite_synced:
  "synced s \<Longrightarrow> parserWrite E table sub opts evs s = Inr s' \<Longrightarrow> synced s'"
proof (induction evs arbitrary: s)
  case Nil
  then show ?case by simp
next
  case (Cons ev evs)
  then show ?case
    by (auto split: if_splits sum.splits dest: handle_synced)
qed

lemma synced_initial: "synced (initial schema table sub)"
  by (simp add: synced_def initial_def)

text \<open>
  Claim C7. At every point of a conversion (in the initial state and after every open,
  text or close event that has been processed) the field, data, iteration and namespace
  stacks have the same length. Every branch of the open handler that handles an element
  pushes exactly one entry onto each of the four stacks (the first open event, the
  wrapper tag, is dropped and leaves the four stacks as they are); the text handler
  leaves the stacks as they are; the close handler pops exactly one entry from each (an
  empty stack staying empty). The events are arbitrary, so the state after any prefix of
  a document is covered.
\<close>

theorem stacks_synchronized:
  "synced (initial schema table sub)
   \<and> (\<forall>evs s. parserWrite E table sub opts evs (initial schema table sub) = Inr s \<longrightarrow> synced s)
   \<and> (\<forall>fullname s s'. onopentag E table sub fullname s = Inr s' \<longrightarrow>
         (if droppedWrapper s then pushedOne s s' else sameStacks s s'))
   \<and> (\<forall>t s s'. ontext E table opts t s = Inr s' \<longrightarrow> sameStacks s s')
   \<and> (\<forall>s. poppedOne s (onclosetag s))"
proof (intro conjI allI impI)
  show "synced (initial schema table sub)" by (rule synced_initial)
next
  fix evs s
  assume "parserWrite E table sub opts evs (initial schema table sub) = Inr s"
  then show "synced s" by (rule parserWrite_synced [OF synced_initial])
next
  fix fullname s s'
  assume o: "onopentag E table sub fullname s = Inr s'"
  show "if droppedWrapper s then pushedOne s s' else sameStacks s s'"
  proof (cases "droppedWrapper s")
    case True
    with o show ?thesis by (simp add: onopentag_pushedOne)
  next
    case False
    with o have "s' = s\<lparr> droppedWrapper := True \<rparr>" by (simp add: onopentag_wrapper)
    with False show ?thesis by (simp add: sameStacks_def)
  qed
next
  fix t s s'
  assume "ontext E table opts t s = Inr s'"
  then show "sameStacks s s'" by (rule ontext_sameStacks)
next
  fix s
  show "poppedOne s (onclosetag s)" by (rule onclosetag_poppedOne)
qed

theorem stacks_synchronized_witness:
  "\<not> isl (parserWrite sampleEnv ''Submissions.a.b'' nestedDoc noOptions (take 5 (xml nestedDoc))
            (initial sampleSchema ''Submissions.a.b'' nestedDoc))
   \<and> synced (projr (parserWrite sampleEnv ''Submissions.a.b'' nestedDoc noOptions (take 5 (xml nestedDoc))
                      (initial sampleSchema ''Submissions.a.b'' nestedDoc)))
   \<and> length (fieldStack (projr (parserWrite sampleEnv ''Submissions.a.b'' nestedDoc noOptions
                      (take 5 (xml nestedDoc)) (initial sampleSchema ''Submissions.a.b'' nestedDoc)))) = 4"
proof -
  let ?r = "parserWrite sampleEnv ''Submissions.a.b'' nestedDoc noOptions (take 5 (xml nestedDoc))
              (initial sampleSchema ''Submissions.a.b'' nestedDoc)"
  have ok: "\<not> isl ?r" by code_simp
  then have run: "?r = Inr (projr ?r)" by simp
  have "synced (projr ?r)"
    by (rule stacks_synchronized [of sampleSchema "''Submissions.a.b''" nestedDoc sampleEnv noOptions,
              THEN conjunct2, THEN conjunct1, rule_format, OF run])
  moreover have "length (fieldStack (projr ?r)) = 4" by code_simp
  ultimately show ?thesis using ok by simp
qed

subsection \<open>Text events: what is written, and where\<close>

lemma ontext_inside:
  assumes "inside table s f a"
  shows "ontext E table opts t s =
           (case coerce E opts (ftype f) t of
              None \<Rightarrow> Inr s
            | Some v \<Rightarrow> Inr (s\<lparr> heap := setKey a (targetKey s (name f)) v (heap s) \<rparr>))"
  using assms
  by (auto simp: inside_def ontext_def targetKey_def Let_def split: option.splits)

lemma inside_heap_update [simp]: "inside table (s\<lparr> heap := h \<rparr>) f a = inside table s f a"
  by (simp add: inside_def)

lemma targetKey_heap_update [simp]: "targetKey (s\<lparr> heap := h \<rparr>) nm = targetKey s nm"
  by (simp add: targetKey_def)

text \<open>
  Claim C2 says that an \<open>int\<close> field whose text does not parse (and a \<open>decimal\<close> field
  likewise) leaves its key out of the row. The code assigns the result of \<open>parseInt\<close> or
  \<open>parseFloat\<close> whatever it is, so the key is written with the value \<open>NaN\<close>. What holds
  is the rest of the claim, stated here as amended.

  Claim C2 (amended). For every \<open>int\<close> field whose text does not parse as an integer, and
  every \<open>decimal\<close> field whose text does not parse as a floating-point number, the text
  handler does not fail: it writes the field's key into the current row with the value
  \<open>NaN\<close>, and every other key of that row, every other object, the result and the four
  stacks are left as they were.
\<close>

theorem numeric_failure_writes_NaN:
  assumes "inside table s f a"
    and "(ftype f = ''int'' \<and> parseInt t = NaN) \<or> (ftype f = ''decimal'' \<and> parseFloat t = NaN)"
  shows "\<exists>s'. ontext E table opts t s = Inr s'
           \<and> heap s' a (targetKey s (name f)) = Some (VNum NaN)
           \<and> (\<forall>key. key \<noteq> targetKey s (name f) \<longrightarrow> heap s' a key = heap s a key)
           \<and> (\<forall>b. b \<noteq> a \<longrightarrow> heap s' b = heap s b)
           \<and> result s' = result s \<and> sameStacks s s'"
  using assms(2) unfolding ontext_inside [OF assms(1)]
  by (auto simp: coerce_def setKey_def sameStacks_def)

text \<open>
  The claim as it stands fails on the sample document: the text of \<open>age\<close> is \<open>abc\<close>,
  and the row that is returned holds \<open>NaN\<close> under the key \<open>age\<close>.
\<close>

theorem numeric_failure_counterexample:
  "parseInt ''abc'' = NaN
   \<and> column (submissionToOData sampleEnv sampleSchema ''Submissions'' intDoc noOptions) ''age''
       = Some [Some (VNum NaN)]"
  by code_simp

theorem numeric_failure_writes_NaN_witness:
  "inside ''Submissions'' (projr (parserWrite sampleEnv ''Submissions'' intDoc noOptions (take 2 (xml intDoc))
            (initial sampleSchema ''Submissions'' intDoc))) (Field ''age'' ''int'' []) 0
   \<and> parseInt ''abc'' = NaN
   \<and> (\<exists>s'. ontext sampleEnv ''Submissions'' noOptions ''abc''
              (projr (parserWrite sampleEnv ''Submissions'' intDoc noOptions (take 2 (xml intDoc))
                 (initial sampleSchema ''Submissions'' intDoc))) = Inr s'
            \<and> heap s' 0 ''age'' = Some (VNum NaN) \<and> heap s' 0 ''__id'' = Some (VStr ''uuid''))"
proof -
  let ?s = "projr (parserWrite sampleEnv ''Submissions'' intDoc noOptions (take 2 (xml intDoc))
            (initial sampleSchema ''Submissions'' intDoc))"
  have h1: "inside ''Submissions'' ?s (Field ''age'' ''int'' []) 0" by code_simp
  have h2: "parseInt ''abc'' = NaN" by code_simp
  have k: "targetKey ?s ''age'' = ''age''" by code_simp
  have i: "heap ?s 0 ''__id'' = Some (VStr ''uuid'')" by code_simp
  from numeric_failure_writes_NaN [OF h1, of "''abc''" sampleEnv noOptions] h2
  obtain s' where "ontext sampleEnv ''Submissions'' noOptions ''abc'' ?s = Inr s'"
    and "heap s' 0 (targetKey ?s ''age'') = Some (VNum NaN)"
    and "\<forall>key. key \<noteq> targetKey ?s ''age'' \<longrightarrow> heap s' 0 key = heap ?s 0 key"
    by auto
  then show ?thesis using h1 h2 k i by auto
qed









subsection \<open>Geopoints\<close>




lemma splitLoop_nonempty: "splitLoop piece s \<noteq> []"
  by (induction piece s rule: splitLoop.induct) auto




subsection \<open>Hash ids and parent references\<close>



lemma join_snoc: "join sep (xs @ [y]) = (if xs = [] then [] else join sep xs @ sep) @ y"
  by (induction sep xs rule: join.induct) simp_all













lemma link_key_differs: "targetKey s nm @ ''@odata.navigationLink'' \<noteq> nm"
proof
  assume "targetKey s nm @ ''@odata.navigationLink'' = nm"
  then have "length (targetKey s nm @ ''@odata.navigationLink'') = length nm" by simp
  then show False by (simp add: targetKey_def split: option.splits)
qed

lemma openRepeat_expand:
  assumes dp: "ptr (dataStack s) = Some dataPtr"
    and fs: "those (fieldStack s @ [Some field]) = Some fstack"
    and arr: "rowsAt (heap s dataPtr nm) = Some rows"
    and lt: "getBranchState fstack table < 1"
  shows "openRepeat E table sub nm field s =
           (let s' = expanded E nm field dataPtr fstack rows s;
                ref = parentRef E sub (parentContext (rowContext fstack s rows))
            in if getBranchState fstack table = 0
               then Inr (s'\<lparr> result := result s @ [fresh s],
                            heap := setKey (fresh s) (fst ref) (snd ref) (heap s') \<rparr>)
               else Inr s')"
proof -
  have k: "(case ptr (nsStack s) of None \<Rightarrow> nm | Some ns \<Rightarrow> ns @ ''__'' @ nm) = targetKey s nm"
    by (simp add: targetKey_def)
  have a: "(case setKey dataPtr (targetKey s nm @ ''@odata.navigationLink'') v (heap s) dataPtr nm of
              None \<Rightarrow> Some [] | Some (VArr rows) \<Rightarrow> Some rows | Some _ \<Rightarrow> None) = Some rows" for v
    using arr link_key_differs [of s nm] by (simp add: setKey_def rowsAt_def)
  show ?thesis
    unfolding openRepeat_def Let_def dp fs option.case k a
    using lt by (simp add: expanded_def rowContext_def case_prod_beta)
qed

lemma popToRepeat_rev:
  "popToRepeat cs = rev (dropWhile (\<lambda>c. ftype (fst c) \<noteq> ''repeat'') (rev cs))"
proof (induction cs rule: popToRepeat.induct)
  case (1 cs)
  show ?case
  proof (cases "cs = []")
    case True
    then show ?thesis by (simp add: popToRepeat.simps)
  next
    case False
    then obtain xs x where cs: "cs = xs @ [x]" by (metis rev_exhaust)
    show ?thesis
    proof (cases "ftype (fst x) = ''repeat''")
      case True
      with cs show ?thesis by (simp add: popToRepeat.simps [of "xs @ [x]"])
    next
      case False
      with cs "1.IH" show ?thesis by (simp add: popToRepeat.simps [of "xs @ [x]"])
    qed
  qed
qed

lemma parentContext_none:
  "\<forall>c\<in>set (butlast cs). ftype (fst c) \<noteq> ''repeat'' \<Longrightarrow> parentContext cs = []"
  by (simp add: parentContext_def popToRepeat_rev)

lemma parentContext_nearest:
  "butlast cs = pre @ r # post \<Longrightarrow> ftype (fst r) = ''repeat'' \<Longrightarrow>
   \<forall>c\<in>set post. ftype (fst c) \<noteq> ''repeat'' \<Longrightarrow> parentContext cs = pre @ [r]"
  by (simp add: parentContext_def popToRepeat_rev dropWhile_append)

lemma parentRef_key: "fst (parentRef E sub cs) \<noteq> ''__id''"
proof (cases "cs = []")
  case True
  then show ?thesis by (simp add: parentRef_def)
next
  case False
  have "length (fst (parentRef E sub cs)) \<noteq> length ''__id''"
    using False by (simp add: parentRef_def)
  then show ?thesis by metis
qed

lemma expanded_result [simp]: "result (expanded E nm field dataPtr fstack rows s) = result s"
  by (simp add: expanded_def)

lemma expanded_bag:
  "heap (expanded E nm field dataPtr fstack rows s) (fresh s) =
     [''__id'' \<mapsto> VStr (hashId E (rowContext fstack s rows))]"
  by (simp add: expanded_def)

text \<open>
  Claim C3. For every repeat element classified At (branch state 0) the open handler
  pushes the new row onto the result, and the row carries, next to its \<open>__id\<close>, exactly
  one parent reference. The context stack minus its last entry is walked backward to the
  nearest repeat: when there is one, the key is \<open>__\<close>, the names of the ancestry down to
  that repeat joined with \<open>-\<close>, and \<open>-id\<close>, and the value is the hash id of that ancestry;
  when there is none, the key is \<open>__Submissions-id\<close> and the value is the instance id of
  the submission. The witness is the nested case: two instances of \<open>a\<close> with one \<open>b\<close> each
  and the table \<open>Submissions.a.b\<close>, where the two rows refer to the hash ids of their own
  instance of \<open>a\<close>.
\<close>

theorem parent_reference:
  assumes "ptr (dataStack s) = Some dataPtr"
    and "those (fieldStack s @ [Some field]) = Some fstack"
    and "rowsAt (heap s dataPtr nm) = Some rows"
    and "getBranchState fstack table = 0"
  shows "let cs = rowContext fstack s rows; ref = parentRef E sub (parentContext cs)
         in (\<exists>s'. openRepeat E table sub nm field s = Inr s'
                  \<and> result s' = result s @ [fresh s]
                  \<and> heap s' (fresh s) = [''__id'' \<mapsto> VStr (hashId E cs), fst ref \<mapsto> snd ref])
            \<and> fst ref \<noteq> ''__id''
            \<and> ((\<forall>c\<in>set (butlast cs). ftype (fst c) \<noteq> ''repeat'') \<longrightarrow>
                 ref = (''__Submissions-id'', VStr (instanceId sub)))
            \<and> (\<forall>pre r post.
                  butlast cs = pre @ r # post \<and> ftype (fst r) = ''repeat'' \<and>
                  (\<forall>c\<in>set post. ftype (fst c) \<noteq> ''repeat'') \<longrightarrow>
                  ref = (''__'' @ join ''-'' (map (\<lambda>ctx. name (fst ctx)) (pre @ [r])) @ ''-id'',
                         VStr (hashId E (pre @ [r]))))"
proof -
  define cs where "cs = rowContext fstack s rows"
  define ref where "ref = parentRef E sub (parentContext cs)"
  define s1 where "s1 = expanded E nm field dataPtr fstack rows s"
  have lt: "getBranchState fstack table < 1" using assms(4) by simp
  have run: "openRepeat E table sub nm field s =
               Inr (s1\<lparr> result := result s @ [fresh s],
                        heap := setKey (fresh s) (fst ref) (snd ref) (heap s1) \<rparr>)"
    unfolding openRepeat_expand [OF assms(1,2,3) lt] Let_def s1_def ref_def cs_def
    using assms(4) by simp
  have bag: "heap s1 (fresh s) = [''__id'' \<mapsto> VStr (hashId E cs)]"
    unfolding s1_def cs_def by (rule expanded_bag)
  have one: "\<exists>s'. openRepeat E table sub nm field s = Inr s'
          \<and> result s' = result s @ [fresh s]
          \<and> heap s' (fresh s) = [''__id'' \<mapsto> VStr (hashId E cs), fst ref \<mapsto> snd ref]"
    unfolding run by (simp add: setKey_def bag)
  have two: "fst ref \<noteq> ''__id''" unfolding ref_def by (rule parentRef_key)
  have three: "(\<forall>c\<in>set (butlast cs). ftype (fst c) \<noteq> ''repeat'') \<longrightarrow>
                 ref = (''__Submissions-id'', VStr (instanceId sub))"
  proof
    assume "\<forall>c\<in>set (butlast cs). ftype (fst c) \<noteq> ''repeat''"
    then have "parentContext cs = []" by (rule parentContext_none)
    then show "ref = (''__Submissions-id'', VStr (instanceId sub))"
      by (simp add: ref_def parentRef_def)
  qed
  have four: "\<forall>pre r post.
                  butlast cs = pre @ r # post \<and> ftype (fst r) = ''repeat'' \<and>
                  (\<forall>c\<in>set post. ftype (fst c) \<noteq> ''repeat'') \<longrightarrow>
                  ref = (''__'' @ join ''-'' (map (\<lambda>ctx. name (fst ctx)) (pre @ [r])) @ ''-id'',
                         VStr (hashId E (pre @ [r])))"
  proof (intro allI impI)
    fix pre r post
    assume a: "butlast cs = pre @ r # post \<and> ftype (fst r) = ''repeat'' \<and>
                  (\<forall>c\<in>set post. ftype (fst c) \<noteq> ''repeat'')"
    have "parentContext cs = pre @ [r]"
      by (rule parentContext_nearest [OF conjunct1 [OF a] conjunct1 [OF conjunct2 [OF a]]
            conjunct2 [OF conjunct2 [OF a]]])
    then show "ref = (''__'' @ join ''-'' (map (\<lambda>ctx. name (fst ctx)) (pre @ [r])) @ ''-id'',
                         VStr (hashId E (pre @ [r])))"
      by (simp add: ref_def parentRef_def)
  qed
  from one two three four show ?thesis
    unfolding Let_def cs_def [symmetric] ref_def [symmetric] by (intro conjI)
qed

theorem parent_reference_witness:
  "ptr (dataStack secondA) = Some 3
   \<and> those (fieldStack secondA @ [Some fieldB]) = Some [sampleRoot, fieldA, fieldB]
   \<and> rowsAt (heap secondA 3 ''b'') = Some []
   \<and> getBranchState [sampleRoot, fieldA, fieldB] ''Submissions.a.b'' = 0
   \<and> (\<exists>s'. openRepeat sampleEnv ''Submissions.a.b'' nestedDoc ''b'' fieldB secondA = Inr s'
            \<and> result s' = [2, 4]
            \<and> heap s' 4 = [''__id'' \<mapsto> VStr ''sha<Submissions#uuid%%a#1%%b#0>'',
                            ''__Submissions-a-id'' \<mapsto> VStr ''sha<Submissions#uuid%%a#1>''])
   \<and> heap secondA 2 ''__Submissions-a-id'' = Some (VStr ''sha<Submissions#uuid%%a#0>'')
   \<and> heap secondA 1 ''__id'' = Some (VStr ''sha<Submissions#uuid%%a#0>'')
   \<and> heap secondA 3 ''__id'' = Some (VStr ''sha<Submissions#uuid%%a#1>'')"
proof -
  have h1: "ptr (dataStack secondA) = Some 3" by code_simp
  have h2: "those (fieldStack secondA @ [Some fieldB]) = Some [sampleRoot, fieldA, fieldB]" by code_simp
  have h3: "rowsAt (heap secondA 3 ''b'') = Some []" by code_simp
  have h4: "getBranchState [sampleRoot, fieldA, fieldB] ''Submissions.a.b'' = 0" by code_simp
  have cs: "rowContext [sampleRoot, fieldA, fieldB] secondA [] =
              [(sampleRoot, IStr ''uuid''), (fieldA, INum 1), (fieldB, INum 0)]" by code_simp
  have r: "result secondA = [2]" and f: "fresh secondA = 4" by code_simp+
  have i: "hashId sampleEnv [(sampleRoot, IStr ''uuid''), (fieldA, INum 1), (fieldB, INum 0)]
             = ''sha<Submissions#uuid%%a#1%%b#0>''" by code_simp
  have p: "(''__'' @ join ''-'' (map (\<lambda>ctx. name (fst ctx)) ([(sampleRoot, IStr ''uuid'')] @ [(fieldA, INum 1)])) @ ''-id'',
            VStr (hashId sampleEnv ([(sampleRoot, IStr ''uuid'')] @ [(fieldA, INum 1)])))
           = (''__Submissions-a-id'', VStr ''sha<Submissions#uuid%%a#1>'')" by code_simp
  have a: "ftype (fst (fieldA, INum 1)) = ''repeat''" by code_simp
  have o: "heap secondA 2 ''__Submissions-a-id'' = Some (VStr ''sha<Submissions#uuid%%a#0>'')" by code_simp
  have prem: "butlast [(sampleRoot, IStr ''uuid''), (fieldA, INum 1), (fieldB, INum 0)]
                = [(sampleRoot, IStr ''uuid'')] @ (fieldA, INum 1) # []
              \<and> ftype (fst (fieldA, INum 1)) = ''repeat''
              \<and> (\<forall>c\<in>set []. ftype (fst c) \<noteq> ''repeat'')"
    using a by simp
  note t = parent_reference [OF h1 h2 h3 h4, of sampleEnv nestedDoc, unfolded Let_def cs]
  note t1 = t [THEN conjunct1]
  note t4 = t [THEN conjunct2, THEN conjunct2, THEN conjunct2, rule_format, OF prem]
  have ref: "parentRef sampleEnv nestedDoc
               (parentContext [(sampleRoot, IStr ''uuid''), (fieldA, INum 1), (fieldB, INum 0)])
             = (''__Submissions-a-id'', VStr ''sha<Submissions#uuid%%a#1>'')"
    by (rule trans [OF t4 p])
  have "\<exists>s'. openRepeat sampleEnv ''Submissions.a.b'' nestedDoc ''b'' fieldB secondA = Inr s'
            \<and> result s' = [2, 4]
            \<and> heap s' 4 = [''__id'' \<mapsto> VStr ''sha<Submissions#uuid%%a#1%%b#0>'',
                            ''__Submissions-a-id'' \<mapsto> VStr ''sha<Submissions#uuid%%a#1>'']"
    using t1 unfolding ref r f i fst_conv snd_conv by simp
  moreover have "heap secondA 1 ''__id'' = Some (VStr ''sha<Submissions#uuid%%a#0>'')"
    and "heap secondA 3 ''__id'' = Some (VStr ''sha<Submissions#uuid%%a#1>'')"
    by code_simp+
  ultimately show ?thesis using h1 h2 h3 h4 o by (intro conjI)
qed




subsection \<open>Documents that are not closed\<close>

lemma openRepeat_resolved:
  "openRepeat E table sub nm field s = Inr s' \<Longrightarrow>
     resolved s' = resolved s \<and> droppedWrapper s' = droppedWrapper s"
  by (auto simp: openRepeat_def Let_def pushNull_def
           split: option.splits val.splits if_splits prod.splits)

lemma onopentag_resolved:
  "onopentag E table sub fullname s = Inr s' \<Longrightarrow> resolved s' = resolved s \<and> droppedWrapper s'"
  by (auto simp: onopentag_def Let_def pushNull_def dest: openRepeat_resolved
           split: option.splits if_splits)

lemma ontext_resolved:
  "ontext E table opts t s = Inr s' \<Longrightarrow>
     resolved s' = resolved s \<and> droppedWrapper s' = droppedWrapper s"
  by (auto simp: ontext_def Let_def split: option.splits if_splits)

lemma onclosetag_resolved:
  "1 < length (fieldStack s) \<Longrightarrow>
     resolved (onclosetag s) = resolved s \<and> droppedWrapper (onclosetag s) = droppedWrapper s"
  by (cases "fieldStack s" rule: rev_cases) (auto simp: onclosetag_def Let_def)

lemma parserWrite_unclosed:
  "unclosed (droppedWrapper s) (length (fieldStack s)) evs \<Longrightarrow> resolved s = None \<Longrightarrow>
   parserWrite E table sub opts evs s = Inr s' \<Longrightarrow> resolved s' = None"
proof (induction evs arbitrary: s)
  case Nil
  then show ?case by simp
next
  case (Cons ev evs)
  from Cons.prems(2,3) obtain s1 where
    h: "handle E table sub opts ev s = Inr s1" and
    r: "parserWrite E table sub opts evs s1 = Inr s'"
    by (auto split: sum.splits)
  have "unclosed (droppedWrapper s1) (length (fieldStack s1)) evs \<and> resolved s1 = None"
  proof (cases ev)
    case (Open fullname)
    with h have o: "onopentag E table sub fullname s = Inr s1" by (simp add: handle_def)
    show ?thesis
    proof (cases "droppedWrapper s")
      case True
      from onopentag_pushedOne [OF True o] onopentag_resolved [OF o] Cons.prems(1,2) Open True
      show ?thesis by (simp add: pushedOne_def)
    next
      case False
      with o have "s1 = s\<lparr> droppedWrapper := True \<rparr>" by (simp add: onopentag_wrapper)
      with Cons.prems(1,2) Open False show ?thesis by simp
    qed
  next
    case (Text t)
    with h have o: "ontext E table opts t s = Inr s1" by (simp add: handle_def)
    from ontext_sameStacks [OF o] ontext_resolved [OF o] Cons.prems(1,2) Text
    show ?thesis by (simp add: sameStacks_def)
  next
    case Close
    with h have o: "s1 = onclosetag s" by (simp add: handle_def)
    from Close Cons.prems(1) have d: "1 < length (fieldStack s)" by simp
    from onclosetag_resolved [OF d] Close Cons.prems(1,2) o
    show ?thesis by (simp add: onclosetag_stacks)
  qed
  then show ?case using Cons.IH [of s1] r by blast
qed

text \<open>
  Claim C8 says that malformed markup makes the conversion fail with an error that reaches
  the caller. The promise is built from \<open>resolve\<close> alone, the parser is given no error
  handler and is never told that the document has ended, so there is no path on which the
  markup is rejected: a document that stops before the wrapper element is closed leaves
  the promise pending.

  Claim C8 (amended). For every submission whose document is unbalanced in that the
  wrapper element is never closed, the conversion does not fail on the markup and does
  not deliver a result: the promise is left pending, unless a handler has thrown a
  TypeError while writing into the output objects, which is the only error the conversion
  can surface.
\<close>

theorem unclosed_document_pending:
  assumes "unclosed False 1 (xml sub)"
  shows "submissionToOData E schema table sub opts = Pending
         \<or> submissionToOData E schema table sub opts = Rejected TypeError"
proof (cases "parserWrite E table sub opts (xml sub) (initial schema table sub)")
  case (Inl err)
  then show ?thesis by (cases err) (simp add: submissionToOData_def)
next
  case (Inr s')
  have "unclosed (droppedWrapper (initial schema table sub))
          (length (fieldStack (initial schema table sub))) (xml sub)"
    using assms by (simp add: initial_def)
  moreover have "resolved (initial schema table sub) = None" by (simp add: initial_def)
  ultimately have "resolved s' = None" using Inr by (rule parserWrite_unclosed)
  with Inr show ?thesis by (simp add: submissionToOData_def)
qed

lemma pending_sample:
  "submissionToOData sampleEnv sampleSchema ''Submissions.a'' openDoc noOptions = Pending"
proof -
  have "case submissionToOData sampleEnv sampleSchema ''Submissions.a'' openDoc noOptions of
          Pending \<Rightarrow> True | _ \<Rightarrow> False"
    by code_simp
  then show ?thesis
    by (cases "submissionToOData sampleEnv sampleSchema ''Submissions.a'' openDoc noOptions") simp_all
qed

text \<open>
  The claim as it stands fails on the document \<open><data><a><n>x</n>\<close>, which is cut off
  inside \<open>a\<close>: no error is surfaced and the promise stays pending.
\<close>

theorem unclosed_document_counterexample:
  "submissionToOData sampleEnv sampleSchema ''Submissions.a'' openDoc noOptions = Pending
   \<and> submissionToOData sampleEnv sampleSchema ''Submissions.a'' openDoc noOptions \<noteq> Rejected TypeError"
  by (simp add: pending_sample)

theorem unclosed_document_pending_witness:
  "unclosed False 1 (xml openDoc)
   \<and> submissionToOData sampleEnv sampleSchema ''Submissions.a'' openDoc noOptions \<noteq> Rejected TypeError
   \<and> submissionToOData sampleEnv sampleSchema ''Submissions.a'' openDoc noOptions = Pending"
proof -
  have u: "unclosed False 1 (xml openDoc)" by code_simp
  have n: "submissionToOData sampleEnv sampleSchema ''Submissions.a'' openDoc noOptions \<noteq> Rejected TypeError"
    by (simp add: pending_sample)
  from unclosed_document_pending [OF u, of sampleEnv sampleSchema "''Submissions.a''" noOptions] n
  have "submissionToOData sampleEnv sampleSchema ''Submissions.a'' openDoc noOptions = Pending"
    by blast
  with u n show ?thesis by (intro conjI)
qed

subsection \<open>The root table\<close>

lemma join_root: "join ''.'' (''Submissions'' # n # ns) = ''Submissions.'' @ join ''.'' (n # ns)"
  by simp













end
